theory Spec2Isabelle
  imports Complex_Main "HOL-Library.FSet"
begin

section \<open>The MQ-CNN and MQ-RNN estimators of \<^verbatim>\<open>gluonts/model/seq2seq/_mq_dnn_estimator.py\<close>\<close>

text \<open>
  The module defines two estimator classes. Each constructor validates its
  hyperparameters with \<^verbatim>\<open>assert\<close> statements, fills in the defaults of the omitted
  sequences, builds an encoder, a decoder and a quantile output, and hands them to the
  base class. The class method \<^verbatim>\<open>derive_auto_fields\<close> reads three fields off the statistics
  of a training set.

  The embedding follows the module in two layers. The bodies of the two
  \<^verbatim>\<open>__init__\<close> methods and of \<^verbatim>\<open>derive_auto_fields\<close> are HOL functions over explicit
  arguments, errors and effects. The execution of the \<^verbatim>\<open>def\<close> statement of
  \<^verbatim>\<open>MQCNNEstimator.__init__\<close>, which evaluates the decorator, the default values and
  the annotations of the signature in the namespace of the module, is a separate
  function over the names the module binds.
\<close>

subsection \<open>Python values, exceptions and effects\<close>

text \<open>
  An \<^verbatim>\<open>assert\<close> that fails raises \<^verbatim>\<open>AssertionError\<close> with its message: this is the one
  kind of configuration error of the constructors. Indexing an empty list raises
  \<^verbatim>\<open>IndexError\<close>; a name bound nowhere raises \<^verbatim>\<open>NameError\<close>; seeding the numerical
  library with an integer it does not accept raises \<^verbatim>\<open>ValueError\<close>.
\<close>

datatype error =
    AssertionError string
  | IndexError
  | NameError string
  | ValueError string

text \<open>
  A Python \<^verbatim>\<open>float\<close> is a finite value, an infinity or a NaN. A literal is modelled by
  the decimal it is written as. Every comparison with a NaN is false.
\<close>

datatype pyfloat = Finite real | PosInf | NegInf | NaN

fun float_le :: "pyfloat \<Rightarrow> pyfloat \<Rightarrow> bool" where
  "float_le NaN _ = False"
| "float_le _ NaN = False"
| "float_le NegInf _ = True"
| "float_le _ PosInf = True"
| "float_le (Finite x) (Finite y) = (x \<le> y)"
| "float_le (Finite _) NegInf = False"
| "float_le PosInf (Finite _) = False"
| "float_le PosInf NegInf = False"

fun float_lt :: "pyfloat \<Rightarrow> pyfloat \<Rightarrow> bool" where
  "float_lt NaN _ = False"
| "float_lt _ NaN = False"
| "float_lt (Finite x) (Finite y) = (x < y)"
| "float_lt (Finite _) PosInf = True"
| "float_lt (Finite _) NegInf = False"
| "float_lt NegInf NegInf = False"
| "float_lt NegInf _ = True"
| "float_lt PosInf _ = False"

text \<open>\<^verbatim>\<open>str(i)\<close> of an integer, as the f-strings of the messages format it.\<close>

definition digit_char :: "nat \<Rightarrow> char" where
  "digit_char d = ''0123456789'' ! d"

function str_nat :: "nat \<Rightarrow> string" where
  "str_nat n = (if n < 10 then [digit_char n] else str_nat (n div 10) @ [digit_char (n mod 10)])"
  by pat_completeness auto
termination
  by (relation "measure (\<lambda>n. n)") auto

declare str_nat.simps [simp del]

definition str_int :: "int \<Rightarrow> string" where
  "str_int i = (if i < 0 then CHR ''-'' # str_nat (nat (- i)) else str_nat (nat i))"

text \<open>\<^verbatim>\<open>all(p(d) for d in xs)\<close> guarded by \<^verbatim>\<open>xs is None or ...\<close>.\<close>

definition none_or_all :: "('a \<Rightarrow> bool) \<Rightarrow> 'a list option \<Rightarrow> bool" where
  "none_or_all p xs = (case xs of None \<Rightarrow> True | Some ys \<Rightarrow> list_all p ys)"

text \<open>\<^verbatim>\<open>xs if xs is not None else d\<close>.\<close>

definition or_default :: "'a option \<Rightarrow> 'a \<Rightarrow> 'a" where
  "or_default xs d = (case xs of None \<Rightarrow> d | Some ys \<Rightarrow> ys)"

text \<open>\<^verbatim>\<open>xs[-1]\<close> raises \<^verbatim>\<open>IndexError\<close> on the empty list; \<^verbatim>\<open>xs[:-1]\<close> never raises.\<close>

definition getitem_last :: "'a list \<Rightarrow> error + 'a" where
  "getitem_last xs = (if xs = [] then Inl IndexError else Inr (last xs))"

definition slice_but_last :: "'a list \<Rightarrow> 'a list" where
  "slice_but_last xs = butlast xs"

text \<open>The truth value of an \<^verbatim>\<open>Optional[int]\<close>: \<^verbatim>\<open>None\<close> and \<^verbatim>\<open>0\<close> are false.\<close>

definition truthy :: "int option \<Rightarrow> bool" where
  "truthy s = (case s of None \<Rightarrow> False | Some i \<Rightarrow> i \<noteq> 0)"

subsection \<open>The architecture objects\<close>

text \<open>
  The encoder, decoder and quantile output classes live in other modules. Each
  object is the record of the keyword arguments the constructor call passes.
\<close>

record HierarchicalCausalConv1DEncoder =
  enc_dilation_seq :: "int list"
  enc_kernel_size_seq :: "int list"
  enc_channels_seq :: "int list"
  enc_use_residual :: bool
  enc_use_static_feat :: bool
  enc_use_dynamic_feat :: bool
  enc_prefix :: string

record RNNEncoder =
  renc_mode :: string
  renc_hidden_size :: int
  renc_num_layers :: int
  renc_bidirectional :: bool
  renc_prefix :: string
  renc_use_static_feat :: bool
  renc_use_dynamic_feat :: bool

record ForkingMLPDecoder =
  dec_len :: int
  final_dim :: int
  hidden_dimension_sequence :: "int list"
  dec_prefix :: string

record QuantileOutput =
  qo_quantiles :: "pyfloat list"

datatype arch_object =
    CNN_encoder HierarchicalCausalConv1DEncoder
  | RNN_encoder RNNEncoder
  | MLP_decoder ForkingMLPDecoder
  | Quantile_head QuantileOutput

text \<open>
  The effects of a constructor on the process, in the order they happen: seeding
  one of the two random number generators, and building an architecture object.
\<close>

datatype effect =
    Np_random_seed int
  | Mx_random_seed int
  | Built arch_object

fun is_seed :: "effect \<Rightarrow> bool" where
  "is_seed (Np_random_seed _) = True"
| "is_seed (Mx_random_seed _) = True"
| "is_seed (Built _) = False"

subsection \<open>\<^verbatim>\<open>MQCNNEstimator.__init__\<close>\<close>

text \<open>
  The arguments of the constructor, in the order of the signature. The distribution
  output and the trainer are opaque objects of types \<open>'d\<close> and \<open>'t\<close>.
\<close>

record ('d, 't) MQCNN_args =
  freq :: string
  prediction_length :: int
  sampling :: bool
  distr_output :: 'd
  context_length :: "int option"
  use_feat_dynamic_real :: bool
  use_feat_static_cat :: bool
  cardinality :: "int list option"
  embedding_dimension :: "int list option"
  add_time_feature :: bool
  add_age_feature :: bool
  enable_decoder_dynamic_feature :: bool
  seed :: "int option"
  decoder_mlp_dim_seq :: "int list option"
  channels_seq :: "int list option"
  dilation_seq :: "int list option"
  kernel_size_seq :: "int list option"
  use_residual :: bool
  quantiles :: "pyfloat list option"
  trainer :: 't
  scaling :: bool

text \<open>
  The defaults of the signature. \<^verbatim>\<open>freq\<close> and \<^verbatim>\<open>prediction_length\<close> have none; the
  default objects \<^verbatim>\<open>GaussianOutput()\<close> and \<^verbatim>\<open>Trainer()\<close> are created when the
  signature is evaluated and are parameters here.
\<close>

definition MQCNN_defaults :: "string \<Rightarrow> int \<Rightarrow> 'd \<Rightarrow> 't \<Rightarrow> ('d, 't) MQCNN_args" where
  "MQCNN_defaults f p gaussian_output default_trainer =
     \<lparr> freq = f, prediction_length = p, sampling = True, distr_output = gaussian_output,
       context_length = None, use_feat_dynamic_real = False, use_feat_static_cat = False,
       cardinality = None, embedding_dimension = None, add_time_feature = False,
       add_age_feature = False, enable_decoder_dynamic_feature = False, seed = None,
       decoder_mlp_dim_seq = None, channels_seq = None, dilation_seq = None,
       kernel_size_seq = None, use_residual = True, quantiles = None,
       trainer = default_trainer, scaling = False \<rparr>"

text \<open>
  The estimator after construction: the attributes \<^verbatim>\<open>__init__\<close> sets on \<^verbatim>\<open>self\<close>, then
  the keyword arguments of the call of the base class constructor.
\<close>

record ('d, 't) MQCNNEstimator =
  self_decoder_mlp_dim_seq :: "int list"
  self_channels_seq :: "int list"
  self_dilation_seq :: "int list"
  self_kernel_size_seq :: "int list"
  self_quantiles :: "pyfloat list"
  self_sampling :: bool
  self_distr_output :: 'd
  encoder :: HierarchicalCausalConv1DEncoder
  decoder :: ForkingMLPDecoder
  quantile_output :: QuantileOutput
  base_freq :: string
  base_prediction_length :: int
  base_context_length :: "int option"
  base_use_feat_dynamic_real :: bool
  base_use_feat_static_cat :: bool
  base_enable_decoder_dynamic_feature :: bool
  base_cardinality :: "int list option"
  base_embedding_dimension :: "int list option"
  base_add_time_feature :: bool
  base_add_age_feature :: bool
  base_trainer :: 't
  base_scaling :: bool

definition default_quantiles :: "pyfloat list" where
  "default_quantiles =
     [Finite (1/10), Finite (2/10), Finite (3/10), Finite (4/10), Finite (5/10),
      Finite (6/10), Finite (7/10), Finite (8/10), Finite (9/10)]"

definition msg_prediction_length :: "int \<Rightarrow> string" where
  "msg_prediction_length p = ''Invalid prediction length: '' @ str_int p @ ''.''"

definition msg_mlp :: string where
  "msg_mlp = ''Elements of `mlp_hidden_dimension_seq` should be > 0''"

definition msg_channels :: string where
  "msg_channels = ''Elements of `channels_seq` should be > 0''"

definition msg_dilation :: string where
  "msg_dilation = ''Elements of `dilation_seq` should be > 0''"

definition msg_kernel :: string where
  "msg_kernel = ''Elements of `kernel_size_seq` should be > 0''"

definition msg_quantiles :: string where
  "msg_quantiles = ''Elements of `quantiles` should be >= 0 and <= 1''"

definition msg_mismatch :: "nat \<Rightarrow> nat \<Rightarrow> nat \<Rightarrow> string" where
  "msg_mismatch c d k =
     ''mismatch CNN configurations: '' @ str_nat c @ '' vs. '' @ str_nat d @ '' vs. '' @ str_nat k"

text \<open>
  \<^verbatim>\<open>np.random.seed\<close> accepts an integer from 0 to 2**32 - 1 and raises
  \<^verbatim>\<open>ValueError\<close> on any other integer.
\<close>

definition np_seed_accepted :: "int \<Rightarrow> bool" where
  "np_seed_accepted s = (0 \<le> s \<and> s < 2 ^ 32)"

definition msg_seed :: string where
  "msg_seed = ''Seed must be between 0 and 2**32 - 1''"

text \<open>
  Modelled from the spec: the validation inside the constructor of the base class
  \<^verbatim>\<open>ForkingSeq2SeqEstimator\<close>, which is not part of this module. Of the invariants of
  the shared fields it checks those the two constructors here have not checked
  themselves: a context length, when given, is a positive number of time steps; the
  cardinalities are supplied when static categorical features are enabled; every
  cardinality is positive. A violated invariant raises an assertion error that names
  the field.
\<close>

definition msg_context_length :: string where
  "msg_context_length = ''The value of `context_length` should be > 0''"

definition msg_cardinality_required :: string where
  "msg_cardinality_required = ''`cardinality` must be set if `use_feat_static_cat` is True''"

definition msg_cardinality :: string where
  "msg_cardinality = ''Elements of `cardinality` should be > 0''"

definition ForkingSeq2SeqEstimator_validate ::
  "int option \<Rightarrow> bool \<Rightarrow> int list option \<Rightarrow> error option" where
  "ForkingSeq2SeqEstimator_validate context_len static_cat cards =
     (if \<not> (case context_len of None \<Rightarrow> True | Some c \<Rightarrow> 0 < c) then
        Some (AssertionError msg_context_length)
      else if static_cat \<and> cards = None then
        Some (AssertionError msg_cardinality_required)
      else if \<not> none_or_all (\<lambda>c. 0 < c) cards then
        Some (AssertionError msg_cardinality)
      else None)"

text \<open>
  Modelled from the spec: the constructor of the base class
  \<^verbatim>\<open>ForkingSeq2SeqEstimator\<close>, which is not part of this module. The base estimator
  receives the three handles and the shared fields as one bundle and owns training and
  prediction; here it validates the shared fields and then stores what it is given.
\<close>

definition ForkingSeq2SeqEstimator_init_cnn ::
  "('d, 't) MQCNN_args \<Rightarrow> int list \<Rightarrow> int list \<Rightarrow> int list \<Rightarrow> int list \<Rightarrow> pyfloat list \<Rightarrow>
   HierarchicalCausalConv1DEncoder \<Rightarrow> ForkingMLPDecoder \<Rightarrow> QuantileOutput \<Rightarrow>
   error + ('d, 't) MQCNNEstimator" where
  "ForkingSeq2SeqEstimator_init_cnn a dec_seq ch_seq dil_seq ker_seq qs enc dec qo =
     (case ForkingSeq2SeqEstimator_validate (context_length a) (use_feat_static_cat a)
             (cardinality a) of
        Some e \<Rightarrow> Inl e
      | None \<Rightarrow>
          Inr \<lparr> self_decoder_mlp_dim_seq = dec_seq, self_channels_seq = ch_seq,
                self_dilation_seq = dil_seq, self_kernel_size_seq = ker_seq,
                self_quantiles = qs,
                self_sampling = sampling a, self_distr_output = distr_output a,
                encoder = enc, decoder = dec, quantile_output = qo,
                base_freq = freq a, base_prediction_length = prediction_length a,
                base_context_length = context_length a,
                base_use_feat_dynamic_real = use_feat_dynamic_real a,
                base_use_feat_static_cat = use_feat_static_cat a,
                base_enable_decoder_dynamic_feature = enable_decoder_dynamic_feature a,
                base_cardinality = cardinality a,
                base_embedding_dimension = embedding_dimension a,
                base_add_time_feature = add_time_feature a,
                base_add_age_feature = add_age_feature a,
                base_trainer = trainer a, base_scaling = scaling a \<rparr>)"

text \<open>
  The construction part of the body, lines 178 to 221: seeding, encoder, decoder,
  quantile output, base class. It runs on the normalised sequences. A seed that
  \<^verbatim>\<open>np.random.seed\<close> refuses ends the run at line 179, before the other generator
  is seeded and before anything is built; an error of the base class constructor comes
  after the three objects are built.
\<close>

definition MQCNN_build ::
  "('d, 't) MQCNN_args \<Rightarrow> int list \<Rightarrow> int list \<Rightarrow> int list \<Rightarrow> int list \<Rightarrow> pyfloat list \<Rightarrow>
   effect list \<Rightarrow> (error + ('d, 't) MQCNNEstimator) \<times> effect list" where
  "MQCNN_build a dec_seq ch_seq dil_seq ker_seq qs w =
     (if truthy (seed a) \<and> \<not> np_seed_accepted (the (seed a)) then
        (Inl (ValueError msg_seed), w)
      else
        (let w1 = (if truthy (seed a)
                   then w @ [Np_random_seed (the (seed a)), Mx_random_seed (the (seed a))]
                   else w);
             enc = \<lparr> enc_dilation_seq = dil_seq, enc_kernel_size_seq = ker_seq,
                     enc_channels_seq = ch_seq, enc_use_residual = use_residual a,
                     enc_use_static_feat = True, enc_use_dynamic_feat = True,
                     enc_prefix = ''encoder_'' \<rparr>;
             w2 = w1 @ [Built (CNN_encoder enc)]
         in case getitem_last dec_seq of
              Inl e \<Rightarrow> (Inl e, w2)
            | Inr fd \<Rightarrow>
                (let dec = \<lparr> dec_len = prediction_length a, final_dim = fd,
                              hidden_dimension_sequence = slice_but_last dec_seq,
                              dec_prefix = ''decoder_'' \<rparr>;
                     w3 = w2 @ [Built (MLP_decoder dec)];
                     qo = \<lparr> qo_quantiles = qs \<rparr>;
                     w4 = w3 @ [Built (Quantile_head qo)]
                 in (ForkingSeq2SeqEstimator_init_cnn a dec_seq ch_seq dil_seq ker_seq qs
                       enc dec qo, w4))))"

text \<open>
  The body of \<^verbatim>\<open>__init__\<close>, lines 131 to 221: the six assertions on the raw
  arguments in source order, the defaults, the assertion on the three lengths, then the
  construction. The result is the raised error or the estimator, with the effects so far.
\<close>

definition MQCNNEstimator_init ::
  "('d, 't) MQCNN_args \<Rightarrow> effect list \<Rightarrow> (error + ('d, 't) MQCNNEstimator) \<times> effect list" where
  "MQCNNEstimator_init a w =
     (if \<not> 0 < prediction_length a then
        (Inl (AssertionError (msg_prediction_length (prediction_length a))), w)
      else if \<not> none_or_all (\<lambda>d. 0 < d) (decoder_mlp_dim_seq a) then
        (Inl (AssertionError msg_mlp), w)
      else if \<not> none_or_all (\<lambda>d. 0 < d) (channels_seq a) then
        (Inl (AssertionError msg_channels), w)
      else if \<not> none_or_all (\<lambda>d. 0 < d) (dilation_seq a) then
        (Inl (AssertionError msg_dilation), w)
      else if \<not> none_or_all (\<lambda>d. 1 < d) (kernel_size_seq a) then
        (Inl (AssertionError msg_kernel), w)
      else if \<not> none_or_all (\<lambda>d. float_le (Finite 0) d \<and> float_le d (Finite 1)) (quantiles a) then
        (Inl (AssertionError msg_quantiles), w)
      else
        (let dec_seq = or_default (decoder_mlp_dim_seq a) [30];
             ch_seq = or_default (channels_seq a) [30, 30, 30];
             dil_seq = or_default (dilation_seq a) [1, 3, 5];
             ker_seq = or_default (kernel_size_seq a) [7, 3, 3];
             qs = or_default (quantiles a) default_quantiles
         in if \<not> (length ch_seq = length dil_seq \<and> length dil_seq = length ker_seq) then
              (Inl (AssertionError
                      (msg_mismatch (length ch_seq) (length dil_seq) (length ker_seq))), w)
            else MQCNN_build a dec_seq ch_seq dil_seq ker_seq qs w))"

subsection \<open>\<^verbatim>\<open>MQRNNEstimator.__init__\<close>\<close>

record 't MQRNN_args =
  rnn_prediction_length :: int
  rnn_freq :: string
  rnn_context_length :: "int option"
  rnn_decoder_mlp_dim_seq :: "int list option"
  rnn_trainer :: 't
  rnn_quantiles :: "pyfloat list option"
  rnn_scaling :: bool

definition MQRNN_defaults :: "int \<Rightarrow> string \<Rightarrow> 't \<Rightarrow> 't MQRNN_args" where
  "MQRNN_defaults p f default_trainer =
     \<lparr> rnn_prediction_length = p, rnn_freq = f, rnn_context_length = None,
       rnn_decoder_mlp_dim_seq = None, rnn_trainer = default_trainer,
       rnn_quantiles = None, rnn_scaling = True \<rparr>"

record 't MQRNNEstimator =
  rself_decoder_mlp_dim_seq :: "int list"
  rself_quantiles :: "pyfloat list"
  rencoder :: RNNEncoder
  rdecoder :: ForkingMLPDecoder
  rquantile_output :: QuantileOutput
  rbase_freq :: string
  rbase_prediction_length :: int
  rbase_context_length :: "int option"
  rbase_trainer :: 't
  rbase_scaling :: bool

text \<open>
  Modelled from the spec: the constructor of the base class
  \<^verbatim>\<open>ForkingSeq2SeqEstimator\<close>, called with the keyword arguments of the recurrent
  estimator, which leaves the static categorical features and the cardinalities at
  the defaults of the base class, disabled and absent; as above it validates the shared
  fields and then stores what it is given.
\<close>

definition ForkingSeq2SeqEstimator_init_rnn ::
  "'t MQRNN_args \<Rightarrow> int list \<Rightarrow> pyfloat list \<Rightarrow> RNNEncoder \<Rightarrow> ForkingMLPDecoder \<Rightarrow>
   QuantileOutput \<Rightarrow> error + 't MQRNNEstimator" where
  "ForkingSeq2SeqEstimator_init_rnn a dec_seq qs enc dec qo =
     (case ForkingSeq2SeqEstimator_validate (rnn_context_length a) False None of
        Some e \<Rightarrow> Inl e
      | None \<Rightarrow>
          Inr \<lparr> rself_decoder_mlp_dim_seq = dec_seq, rself_quantiles = qs,
                rencoder = enc, rdecoder = dec, rquantile_output = qo,
                rbase_freq = rnn_freq a, rbase_prediction_length = rnn_prediction_length a,
                rbase_context_length = rnn_context_length a, rbase_trainer = rnn_trainer a,
                rbase_scaling = rnn_scaling a \<rparr>)"

definition MQRNNEstimator_init ::
  "'t MQRNN_args \<Rightarrow> effect list \<Rightarrow> (error + 't MQRNNEstimator) \<times> effect list" where
  "MQRNNEstimator_init a w =
     (if \<not> 0 < rnn_prediction_length a then
        (Inl (AssertionError (msg_prediction_length (rnn_prediction_length a))), w)
      else if \<not> none_or_all (\<lambda>d. 0 < d) (rnn_decoder_mlp_dim_seq a) then
        (Inl (AssertionError msg_mlp), w)
      else if \<not> none_or_all (\<lambda>d. float_le (Finite 0) d \<and> float_le d (Finite 1)) (rnn_quantiles a) then
        (Inl (AssertionError msg_quantiles), w)
      else
        (let dec_seq = or_default (rnn_decoder_mlp_dim_seq a) [30];
             qs = or_default (rnn_quantiles a) default_quantiles;
             enc = \<lparr> renc_mode = ''gru'', renc_hidden_size = 50, renc_num_layers = 1,
                     renc_bidirectional = True, renc_prefix = ''encoder_'',
                     renc_use_static_feat = True, renc_use_dynamic_feat = True \<rparr>;
             w1 = w @ [Built (RNN_encoder enc)]
         in case getitem_last dec_seq of
              Inl e \<Rightarrow> (Inl e, w1)
            | Inr fd \<Rightarrow>
                (let dec = \<lparr> dec_len = rnn_prediction_length a, final_dim = fd,
                              hidden_dimension_sequence = slice_but_last dec_seq,
                              dec_prefix = ''decoder_'' \<rparr>;
                     w2 = w1 @ [Built (MLP_decoder dec)];
                     qo = \<lparr> qo_quantiles = qs \<rparr>;
                     w3 = w2 @ [Built (Quantile_head qo)]
                 in (ForkingSeq2SeqEstimator_init_rnn a dec_seq qs enc dec qo, w3))))"

text \<open>Whether a run of a constructor returned an estimator, and which error it raised.\<close>

definition succeeds :: "(error + 'a) \<times> effect list \<Rightarrow> bool" where
  "succeeds r = (case fst r of Inl _ \<Rightarrow> False | Inr _ \<Rightarrow> True)"

definition raises_assertion :: "(error + 'a) \<times> effect list \<Rightarrow> bool" where
  "raises_assertion r = (case fst r of Inl (AssertionError _) \<Rightarrow> True | _ \<Rightarrow> False)"

subsection \<open>\<^verbatim>\<open>MQCNNEstimator.derive_auto_fields\<close>\<close>

text \<open>
  Modelled from the spec: the statistics object that \<^verbatim>\<open>calculate_dataset_statistics\<close>
  returns, whose class is declared in another module. The method reads two of its
  fields: the count of dynamic real features, and for each static categorical feature
  the set of the distinct values seen.
\<close>

record DatasetStatistics =
  num_feat_dynamic_real :: int
  feat_static_cat :: "int fset list"

text \<open>The values of the dictionary returned: two booleans and a list of integers.\<close>

datatype pyvalue = Bool bool | IntList "int list"

definition str_bool :: "bool \<Rightarrow> string" where
  "str_bool b = (if b then ''True'' else ''False'')"

fun join_comma :: "string list \<Rightarrow> string" where
  "join_comma [] = []"
| "join_comma [x] = x"
| "join_comma (x # y # ys) = x @ '', '' @ join_comma (y # ys)"

definition str_int_list :: "int list \<Rightarrow> string" where
  "str_int_list xs = ''['' @ join_comma (map str_int xs) @ '']''"

definition quoted :: "string \<Rightarrow> string" where
  "quoted s = [CHR 0x27] @ s @ [CHR 0x27]"

text \<open>
  The body of the class method, lines 225 to 240. The function that computes the
  statistics is imported from another module and may raise; it is the parameter
  \<open>calculate_dataset_statistics\<close>. The result is the dictionary, as the list of its
  items in insertion order, and the message logged at level INFO.
\<close>

definition derive_auto_fields ::
  "('i \<Rightarrow> 'x + DatasetStatistics) \<Rightarrow> 'i \<Rightarrow> 'x + ((string \<times> pyvalue) list \<times> string)" where
  "derive_auto_fields calculate_dataset_statistics train_iter =
     (case calculate_dataset_statistics train_iter of
        Inl e \<Rightarrow> Inl e
      | Inr stats \<Rightarrow>
          (let dyn = 0 < num_feat_dynamic_real stats;
               cat = (feat_static_cat stats \<noteq> []);
               card = map (\<lambda>cats. int (fcard cats)) (feat_static_cat stats);
               auto_fields = [(''use_feat_dynamic_real'', Bool dyn),
                              (''use_feat_static_cat'', Bool cat),
                              (''cardinality'', IntList card)];
               info = ''gluonts[from_inputs]: use_feat_dynamic_real set to ''
                      @ quoted (str_bool dyn) @ '', and use use_feat_static_cat to ''
                      @ quoted (str_bool cat) @ '' with cardinality of ''
                      @ quoted (str_int_list card)
           in Inr (auto_fields, info)))"

subsection \<open>Executing the definition of \<^verbatim>\<open>MQCNNEstimator.__init__\<close>\<close>

text \<open>
  The names the module binds before the class statement: those of its import
  statements, lines 14 to 37.
\<close>

definition module_globals :: "string list" where
  "module_globals =
     [''logging'', ''multiprocessing'', ''List'', ''Optional'', ''mx'', ''np'', ''validated'',
      ''Dataset'', ''ListDataset'', ''calculate_dataset_statistics'',
      ''ForkingSeq2SeqEstimator'', ''ForkingMLPDecoder'',
      ''HierarchicalCausalConv1DEncoder'', ''RNNEncoder'', ''QuantileOutput'', ''Trainer'']"

text \<open>The built-in names the signature refers to.\<close>

definition builtin_names :: "string list" where
  "builtin_names = [''str'', ''int'', ''bool'', ''float'']"

text \<open>
  Looking a name up: a name that is neither a global of the module nor a built-in
  raises \<^verbatim>\<open>NameError\<close>. A sequence of lookups stops at the first error.
\<close>

definition lookup_name :: "string list \<Rightarrow> string \<Rightarrow> error + unit" where
  "lookup_name scope n = (if n \<in> set scope then Inr () else Inl (NameError n))"

fun lookup_names :: "string list \<Rightarrow> string list \<Rightarrow> error + unit" where
  "lookup_names scope [] = Inr ()"
| "lookup_names scope (n # ns) =
     (case lookup_name scope n of Inl e \<Rightarrow> Inl e | Inr _ \<Rightarrow> lookup_names scope ns)"

text \<open>
  The names that executing the \<^verbatim>\<open>def\<close> statement of lines 105 to 129 evaluates: the
  decorator expression first, then the default values from left to right, then the
  annotations from left to right. The constants \<^verbatim>\<open>True\<close>, \<^verbatim>\<open>False\<close> and \<^verbatim>\<open>None\<close> are
  not names.
\<close>

definition init_decorator_names :: "string list" where
  "init_decorator_names = [''validated'']"

definition init_default_names :: "string list" where
  "init_default_names = [''GaussianOutput'', ''Trainer'']"

definition init_annotation_names :: "string list" where
  "init_annotation_names =
     [''str'', ''int'', ''bool'', ''DistributionOutput'', ''Optional'', ''int'', ''bool'', ''bool'',
      ''List'', ''int'', ''List'', ''int'', ''bool'', ''bool'', ''bool'', ''Optional'', ''int'',
      ''Optional'', ''List'', ''int'', ''Optional'', ''List'', ''int'', ''Optional'', ''List'', ''int'',
      ''Optional'', ''List'', ''int'', ''bool'', ''Optional'', ''List'', ''float'', ''Trainer'',
      ''bool'']"

definition def_MQCNNEstimator_init :: "string list \<Rightarrow> error + unit" where
  "def_MQCNNEstimator_init scope =
     lookup_names scope (init_decorator_names @ init_default_names @ init_annotation_names)"

text \<open>
  Constructing an estimator from outside the module: the module is executed first,
  which defines the class and its constructor with the names bound so far; only then
  can the constructor be called on the arguments.
\<close>

definition import_and_construct_MQCNN ::
  "('d, 't) MQCNN_args \<Rightarrow> effect list \<Rightarrow> (error + ('d, 't) MQCNNEstimator) \<times> effect list" where
  "import_and_construct_MQCNN a w =
     (case def_MQCNNEstimator_init (module_globals @ builtin_names) of
        Inl e \<Rightarrow> (Inl e, w)
      | Inr _ \<Rightarrow> MQCNNEstimator_init a w)"

section \<open>Properties\<close>

subsection \<open>Helper facts\<close>

lemma base_validate_defaults: "ForkingSeq2SeqEstimator_validate None False None = None"
  by (simp add: ForkingSeq2SeqEstimator_validate_def none_or_all_def)

lemma MQCNN_build_succeeds:
  "dec_seq \<noteq> [] \<Longrightarrow> seed a = None \<Longrightarrow> context_length a = None \<Longrightarrow>
   \<not> use_feat_static_cat a \<Longrightarrow> cardinality a = None \<Longrightarrow>
   succeeds (MQCNN_build a dec_seq ch_seq dil_seq ker_seq qs w)"
  by (simp add: MQCNN_build_def getitem_last_def succeeds_def Let_def truthy_def
      ForkingSeq2SeqEstimator_init_cnn_def base_validate_defaults)


subsection \<open>Prediction length\<close>

text \<open>
  Claim C1. In the body of either constructor a prediction length of zero or less
  fails the first assertion, whatever the other arguments are, and nothing has
  happened before; with a positive prediction length and every other argument at its
  default the body returns an estimator.
\<close>

theorem prediction_length_positive:
  "(prediction_length a \<le> 0 \<longrightarrow>
      MQCNNEstimator_init a w =
        (Inl (AssertionError (msg_prediction_length (prediction_length a))), w))
   \<and> (rnn_prediction_length r \<le> 0 \<longrightarrow>
      MQRNNEstimator_init r w =
        (Inl (AssertionError (msg_prediction_length (rnn_prediction_length r))), w))
   \<and> (0 < p \<longrightarrow>
      succeeds (MQCNNEstimator_init (MQCNN_defaults f p g t) w)
      \<and> succeeds (MQRNNEstimator_init (MQRNN_defaults p f t) w))"
proof (intro conjI impI)
  assume "prediction_length a \<le> 0"
  then show "MQCNNEstimator_init a w =
        (Inl (AssertionError (msg_prediction_length (prediction_length a))), w)"
    by (simp add: MQCNNEstimator_init_def)
next
  assume "rnn_prediction_length r \<le> 0"
  then show "MQRNNEstimator_init r w =
        (Inl (AssertionError (msg_prediction_length (rnn_prediction_length r))), w)"
    by (simp add: MQRNNEstimator_init_def)
next
  assume "0 < p"
  then show "succeeds (MQCNNEstimator_init (MQCNN_defaults f p g t) w)"
    by (simp add: MQCNNEstimator_init_def MQCNN_defaults_def none_or_all_def or_default_def
        MQCNN_build_succeeds)
next
  assume "0 < p"
  then show "succeeds (MQRNNEstimator_init (MQRNN_defaults p f t) w)"
    by (simp add: MQRNNEstimator_init_def MQRNN_defaults_def none_or_all_def or_default_def
        getitem_last_def succeeds_def Let_def ForkingSeq2SeqEstimator_init_rnn_def
        base_validate_defaults)
qed

theorem prediction_length_positive_witness:
  "MQCNNEstimator_init (MQCNN_defaults ''H'' 0 () ()) [] =
     (Inl (AssertionError ''Invalid prediction length: 0.''), [])
   \<and> MQRNNEstimator_init (MQRNN_defaults (- 3) ''H'' ()) [] =
     (Inl (AssertionError ''Invalid prediction length: -3.''), [])
   \<and> succeeds (MQCNNEstimator_init (MQCNN_defaults ''H'' 12 () ()) [])
   \<and> succeeds (MQRNNEstimator_init (MQRNN_defaults 12 ''H'' ()) [])"
  using prediction_length_positive
    [of "MQCNN_defaults ''H'' 0 () ()" "[]" "MQRNN_defaults (- 3) ''H'' ()" 12 "''H''" "()" "()"]
  by (simp add: MQCNN_defaults_def MQRNN_defaults_def msg_prediction_length_def str_int_def
      str_nat.simps digit_char_def)

subsection \<open>Unbound names in the signature\<close>

text \<open>
  Claim C2. The default value \<^verbatim>\<open>GaussianOutput()\<close> and the annotation
  \<^verbatim>\<open>DistributionOutput\<close> of the parameter \<^verbatim>\<open>distr_output\<close> name nothing the module
  imports or defines. Executing the definition of the constructor raises \<^verbatim>\<open>NameError\<close>
  at the default value, so for every argument record an attempt to construct the
  estimator ends in that error with no assertion evaluated and no effect.
\<close>

theorem signature_names_unbound:
  "import_and_construct_MQCNN a w = (Inl (NameError ''GaussianOutput''), w)
   \<and> lookup_name (module_globals @ builtin_names) ''GaussianOutput''
       = Inl (NameError ''GaussianOutput'')
   \<and> lookup_name (module_globals @ builtin_names) ''DistributionOutput''
       = Inl (NameError ''DistributionOutput'')"
  by (simp add: import_and_construct_MQCNN_def def_MQCNNEstimator_init_def
      init_decorator_names_def init_default_names_def lookup_name_def module_globals_def
      builtin_names_def)

subsection \<open>Lengths of the convolution sequences\<close>

text \<open>
  Claim C3. When the three convolution sequences are supplied and their lengths are
  not all equal, the body of the constructor of the convolutional estimator fails an
  assertion, whatever the other arguments are. When the lengths are equal, every
  channel and dilation is positive and every kernel size is greater than one, the body
  returns an estimator, given a positive prediction length and the other arguments at
  their defaults.
\<close>

theorem cnn_sequence_lengths:
  "(channels_seq a = Some ch \<and> dilation_seq a = Some dil \<and> kernel_size_seq a = Some ker
      \<and> \<not> (length ch = length dil \<and> length dil = length ker)
    \<longrightarrow> raises_assertion (MQCNNEstimator_init a w))
   \<and> (0 < p \<and> length ch = length dil \<and> length dil = length ker
      \<and> (\<forall>d \<in> set ch. 0 < d) \<and> (\<forall>d \<in> set dil. 0 < d) \<and> (\<forall>d \<in> set ker. 1 < d)
    \<longrightarrow> succeeds (MQCNNEstimator_init
          ((MQCNN_defaults f p g t)\<lparr> channels_seq := Some ch, dilation_seq := Some dil,
             kernel_size_seq := Some ker \<rparr>) w))"
proof (intro conjI impI)
  assume "channels_seq a = Some ch \<and> dilation_seq a = Some dil \<and> kernel_size_seq a = Some ker
      \<and> \<not> (length ch = length dil \<and> length dil = length ker)"
  then show "raises_assertion (MQCNNEstimator_init a w)"
    by (auto simp add: MQCNNEstimator_init_def Let_def raises_assertion_def or_default_def)
next
  assume "0 < p \<and> length ch = length dil \<and> length dil = length ker
      \<and> (\<forall>d \<in> set ch. 0 < d) \<and> (\<forall>d \<in> set dil. 0 < d) \<and> (\<forall>d \<in> set ker. 1 < d)"
  then show "succeeds (MQCNNEstimator_init
          ((MQCNN_defaults f p g t)\<lparr> channels_seq := Some ch, dilation_seq := Some dil,
             kernel_size_seq := Some ker \<rparr>) w)"
    by (simp add: MQCNNEstimator_init_def MQCNN_defaults_def none_or_all_def or_default_def
        MQCNN_build_succeeds list_all_iff)
qed

theorem cnn_sequence_lengths_witness:
  "MQCNNEstimator_init
      ((MQCNN_defaults ''H'' 12 () ())\<lparr> channels_seq := Some [30, 30, 30],
         dilation_seq := Some [1, 3], kernel_size_seq := Some [7, 3, 3] \<rparr>) []
     = (Inl (AssertionError ''mismatch CNN configurations: 3 vs. 2 vs. 3''), [])
   \<and> raises_assertion (MQCNNEstimator_init
      ((MQCNN_defaults ''H'' 12 () ())\<lparr> channels_seq := Some [30, 30, 30],
         dilation_seq := Some [1, 3], kernel_size_seq := Some [7, 3, 3] \<rparr>) [])
   \<and> succeeds (MQCNNEstimator_init
      ((MQCNN_defaults ''H'' 12 () ())\<lparr> channels_seq := Some [8, 16],
         dilation_seq := Some [1, 2], kernel_size_seq := Some [2, 5] \<rparr>) [])"
  using cnn_sequence_lengths
    [where a = "(MQCNN_defaults ''H'' 12 () ())\<lparr> channels_seq := Some [30, 30, 30],
         dilation_seq := Some [1, 3], kernel_size_seq := Some [7, 3, 3] \<rparr>"
       and ch = "[30, 30, 30]" and dil = "[1, 3]" and ker = "[7, 3, 3]" and w = "[]"]
    cnn_sequence_lengths
    [where p = 12 and ch = "[8, 16]" and dil = "[1, 2]" and ker = "[2, 5]" and w = "[]"
       and f = "''H''" and g = "()" and t = "()"]
  apply (simp add: MQCNN_defaults_def)
  apply (simp add: MQCNNEstimator_init_def none_or_all_def or_default_def msg_mismatch_def
      str_nat.simps digit_char_def)
  done

subsection \<open>Further helper facts\<close>

lemma none_or_all_violated:
  "xs = Some ys \<Longrightarrow> d \<in> set ys \<Longrightarrow> d \<le> (c::int) \<Longrightarrow> \<not> none_or_all (\<lambda>d. c < d) xs"
  by (fastforce simp add: none_or_all_def list_all_iff)

lemma quantile_out_of_range:
  "float_lt d (Finite 0) \<or> float_lt (Finite 1) d \<Longrightarrow>
   \<not> (float_le (Finite 0) d \<and> float_le d (Finite 1))"
  by (cases d) auto

lemma quantiles_violated:
  "qs = Some ys \<Longrightarrow> d \<in> set ys \<Longrightarrow> float_lt d (Finite 0) \<or> float_lt (Finite 1) d \<Longrightarrow>
   \<not> none_or_all (\<lambda>d. float_le (Finite 0) d \<and> float_le d (Finite 1)) qs"
  using quantile_out_of_range [of d]
  by (auto simp add: none_or_all_def list_all_iff)

lemma quantiles_in_unit_interval:
  "\<forall>d \<in> set ys. \<exists>x. d = Finite x \<and> 0 \<le> x \<and> x \<le> 1 \<Longrightarrow>
   none_or_all (\<lambda>d. float_le (Finite 0) d \<and> float_le d (Finite 1)) (Some ys)"
  by (fastforce simp add: none_or_all_def list_all_iff)

subsection \<open>Elements of the convolution sequences\<close>

text \<open>
  Claim C4. The body of the constructor of the convolutional estimator checks every
  element of \<^verbatim>\<open>channels_seq\<close> and \<^verbatim>\<open>dilation_seq\<close> for being positive and every
  element of \<^verbatim>\<open>kernel_size_seq\<close> for being greater than one: a supplied sequence with
  an offending element fails an assertion whatever the other arguments are. When the
  prediction length and the decoder dimensions pass their own checks, which come first,
  the message is that of the first offending sequence in the order channels, dilations,
  kernel sizes, and it names that field. With \<^verbatim>\<open>kernel_size_seq=[1,3,3]\<close>, a positive
  prediction length and the other arguments at their defaults the error is the one
  that names \<^verbatim>\<open>kernel_size_seq\<close>.
\<close>

theorem cnn_element_checks:
  "((\<exists>ch. channels_seq a = Some ch \<and> (\<exists>d \<in> set ch. d \<le> 0))
     \<or> (\<exists>dil. dilation_seq a = Some dil \<and> (\<exists>d \<in> set dil. d \<le> 0))
     \<or> (\<exists>ker. kernel_size_seq a = Some ker \<and> (\<exists>d \<in> set ker. d \<le> 1))
    \<longrightarrow> raises_assertion (MQCNNEstimator_init a w))
   \<and> (0 < prediction_length a \<and> none_or_all (\<lambda>d. 0 < d) (decoder_mlp_dim_seq a) \<longrightarrow>
       (channels_seq a = Some ch \<and> (\<exists>d \<in> set ch. d \<le> 0)
          \<longrightarrow> MQCNNEstimator_init a w = (Inl (AssertionError msg_channels), w))
       \<and> (none_or_all (\<lambda>d. 0 < d) (channels_seq a)
            \<and> dilation_seq a = Some dil \<and> (\<exists>d \<in> set dil. d \<le> 0)
          \<longrightarrow> MQCNNEstimator_init a w = (Inl (AssertionError msg_dilation), w))
       \<and> (none_or_all (\<lambda>d. 0 < d) (channels_seq a) \<and> none_or_all (\<lambda>d. 0 < d) (dilation_seq a)
            \<and> kernel_size_seq a = Some ker \<and> (\<exists>d \<in> set ker. d \<le> 1)
          \<longrightarrow> MQCNNEstimator_init a w = (Inl (AssertionError msg_kernel), w)))
   \<and> (0 < p \<longrightarrow>
        MQCNNEstimator_init ((MQCNN_defaults f p g t)\<lparr> kernel_size_seq := Some [1, 3, 3] \<rparr>) w
          = (Inl (AssertionError ''Elements of `kernel_size_seq` should be > 0''), w))"
proof (intro conjI impI)
  assume "(\<exists>ch. channels_seq a = Some ch \<and> (\<exists>d \<in> set ch. d \<le> 0))
     \<or> (\<exists>dil. dilation_seq a = Some dil \<and> (\<exists>d \<in> set dil. d \<le> 0))
     \<or> (\<exists>ker. kernel_size_seq a = Some ker \<and> (\<exists>d \<in> set ker. d \<le> 1))"
  then have "\<not> none_or_all (\<lambda>d. 0 < d) (channels_seq a)
      \<or> \<not> none_or_all (\<lambda>d. 0 < d) (dilation_seq a)
      \<or> \<not> none_or_all (\<lambda>d. 1 < d) (kernel_size_seq a)"
    by (fastforce simp add: none_or_all_def list_all_iff)
  then show "raises_assertion (MQCNNEstimator_init a w)"
    by (auto simp add: MQCNNEstimator_init_def raises_assertion_def)
next
  assume "0 < prediction_length a \<and> none_or_all (\<lambda>d. 0 < d) (decoder_mlp_dim_seq a)"
    and "channels_seq a = Some ch \<and> (\<exists>d \<in> set ch. d \<le> 0)"
  moreover from this have "\<not> none_or_all (\<lambda>d. 0 < d) (channels_seq a)"
    by (fastforce simp add: none_or_all_def list_all_iff)
  ultimately show "MQCNNEstimator_init a w = (Inl (AssertionError msg_channels), w)"
    by (simp add: MQCNNEstimator_init_def)
next
  assume "0 < prediction_length a \<and> none_or_all (\<lambda>d. 0 < d) (decoder_mlp_dim_seq a)"
    and "none_or_all (\<lambda>d. 0 < d) (channels_seq a)
            \<and> dilation_seq a = Some dil \<and> (\<exists>d \<in> set dil. d \<le> 0)"
  moreover from this have "\<not> none_or_all (\<lambda>d. 0 < d) (dilation_seq a)"
    by (fastforce simp add: none_or_all_def list_all_iff)
  ultimately show "MQCNNEstimator_init a w = (Inl (AssertionError msg_dilation), w)"
    by (simp add: MQCNNEstimator_init_def)
next
  assume "0 < prediction_length a \<and> none_or_all (\<lambda>d. 0 < d) (decoder_mlp_dim_seq a)"
    and "none_or_all (\<lambda>d. 0 < d) (channels_seq a) \<and> none_or_all (\<lambda>d. 0 < d) (dilation_seq a)
            \<and> kernel_size_seq a = Some ker \<and> (\<exists>d \<in> set ker. d \<le> 1)"
  moreover from this have "\<not> none_or_all (\<lambda>d. 1 < d) (kernel_size_seq a)"
    by (fastforce simp add: none_or_all_def list_all_iff)
  ultimately show "MQCNNEstimator_init a w = (Inl (AssertionError msg_kernel), w)"
    by (simp add: MQCNNEstimator_init_def)
next
  assume "0 < p"
  then show "MQCNNEstimator_init ((MQCNN_defaults f p g t)\<lparr> kernel_size_seq := Some [1, 3, 3] \<rparr>) w
          = (Inl (AssertionError ''Elements of `kernel_size_seq` should be > 0''), w)"
    by (simp add: MQCNNEstimator_init_def MQCNN_defaults_def none_or_all_def msg_kernel_def)
qed

theorem cnn_element_checks_witness:
  "MQCNNEstimator_init ((MQCNN_defaults ''H'' 12 () ())\<lparr> channels_seq := Some [30, 0, 30] \<rparr>) []
     = (Inl (AssertionError ''Elements of `channels_seq` should be > 0''), [])
   \<and> MQCNNEstimator_init ((MQCNN_defaults ''H'' 12 () ())\<lparr> dilation_seq := Some [1, - 3, 5] \<rparr>) []
     = (Inl (AssertionError ''Elements of `dilation_seq` should be > 0''), [])
   \<and> MQCNNEstimator_init ((MQCNN_defaults ''H'' 12 () ())\<lparr> kernel_size_seq := Some [1, 3, 3] \<rparr>) []
     = (Inl (AssertionError ''Elements of `kernel_size_seq` should be > 0''), [])
   \<and> raises_assertion
       (MQCNNEstimator_init ((MQCNN_defaults ''H'' 12 () ())\<lparr> kernel_size_seq := Some [1, 3, 3] \<rparr>) [])"
  using cnn_element_checks
    [where a = "(MQCNN_defaults ''H'' 12 () ())\<lparr> channels_seq := Some [30, 0, 30] \<rparr>"
       and ch = "[30, 0, 30]" and dil = "[]" and ker = "[]" and w = "[]"
       and p = 12 and f = "''H''" and g = "()" and t = "()"]
    cnn_element_checks
    [where a = "(MQCNN_defaults ''H'' 12 () ())\<lparr> dilation_seq := Some [1, - 3, 5] \<rparr>"
       and ch = "[]" and dil = "[1, - 3, 5]" and ker = "[]" and w = "[]"
       and p = 12 and f = "''H''" and g = "()" and t = "()"]
    cnn_element_checks
    [where a = "(MQCNN_defaults ''H'' 12 () ())\<lparr> kernel_size_seq := Some [1, 3, 3] \<rparr>"
       and ch = "[]" and dil = "[]" and ker = "[1, 3, 3]" and w = "[]"
       and p = 12 and f = "''H''" and g = "()" and t = "()"]
  by (simp add: MQCNN_defaults_def none_or_all_def msg_channels_def msg_dilation_def
      msg_kernel_def)

subsection \<open>Range of the quantiles\<close>

text \<open>
  Claim C5. A supplied quantile sequence with a value below 0 or above 1, the
  infinities included, fails an assertion in the body of either constructor, whatever
  the other arguments are. A sequence whose values are all finite and in the closed
  interval from 0 to 1, the bounds included, passes: with a positive prediction length
  and the other arguments at their defaults the body of either constructor returns an
  estimator.
\<close>

theorem quantile_range:
  "(quantiles a = Some qs \<and> (\<exists>d \<in> set qs. float_lt d (Finite 0) \<or> float_lt (Finite 1) d)
      \<longrightarrow> raises_assertion (MQCNNEstimator_init a w))
   \<and> (rnn_quantiles r = Some qs \<and> (\<exists>d \<in> set qs. float_lt d (Finite 0) \<or> float_lt (Finite 1) d)
      \<longrightarrow> raises_assertion (MQRNNEstimator_init r w))
   \<and> (0 < p \<and> (\<forall>d \<in> set qs. \<exists>x. d = Finite x \<and> 0 \<le> x \<and> x \<le> 1)
      \<longrightarrow> succeeds (MQCNNEstimator_init ((MQCNN_defaults f p g t)\<lparr> quantiles := Some qs \<rparr>) w)
        \<and> succeeds (MQRNNEstimator_init ((MQRNN_defaults p f t)\<lparr> rnn_quantiles := Some qs \<rparr>) w))"
proof (intro conjI impI)
  assume "quantiles a = Some qs \<and> (\<exists>d \<in> set qs. float_lt d (Finite 0) \<or> float_lt (Finite 1) d)"
  then have "\<not> none_or_all (\<lambda>d. float_le (Finite 0) d \<and> float_le d (Finite 1)) (quantiles a)"
    using quantiles_violated by blast
  then show "raises_assertion (MQCNNEstimator_init a w)"
    by (simp add: MQCNNEstimator_init_def raises_assertion_def)
next
  assume "rnn_quantiles r = Some qs \<and> (\<exists>d \<in> set qs. float_lt d (Finite 0) \<or> float_lt (Finite 1) d)"
  then have "\<not> none_or_all (\<lambda>d. float_le (Finite 0) d \<and> float_le d (Finite 1)) (rnn_quantiles r)"
    using quantiles_violated by blast
  then show "raises_assertion (MQRNNEstimator_init r w)"
    by (simp add: MQRNNEstimator_init_def raises_assertion_def)
next
  assume h: "0 < p \<and> (\<forall>d \<in> set qs. \<exists>x. d = Finite x \<and> 0 \<le> x \<and> x \<le> 1)"
  then have "none_or_all (\<lambda>d. float_le (Finite 0) d \<and> float_le d (Finite 1)) (Some qs)"
    using quantiles_in_unit_interval by blast
  with h show "succeeds (MQCNNEstimator_init ((MQCNN_defaults f p g t)\<lparr> quantiles := Some qs \<rparr>) w)"
    by (simp add: MQCNNEstimator_init_def MQCNN_defaults_def or_default_def
        MQCNN_build_succeeds none_or_all_def [of _ None])
next
  assume h: "0 < p \<and> (\<forall>d \<in> set qs. \<exists>x. d = Finite x \<and> 0 \<le> x \<and> x \<le> 1)"
  then have "none_or_all (\<lambda>d. float_le (Finite 0) d \<and> float_le d (Finite 1)) (Some qs)"
    using quantiles_in_unit_interval by blast
  with h show "succeeds (MQRNNEstimator_init ((MQRNN_defaults p f t)\<lparr> rnn_quantiles := Some qs \<rparr>) w)"
    by (simp add: MQRNNEstimator_init_def MQRNN_defaults_def or_default_def
        getitem_last_def succeeds_def Let_def none_or_all_def [of _ None]
        ForkingSeq2SeqEstimator_init_rnn_def base_validate_defaults)
qed

theorem quantile_range_witness:
  "raises_assertion (MQCNNEstimator_init
      ((MQCNN_defaults ''H'' 12 () ())\<lparr> quantiles := Some [Finite (1/2), Finite (11/10)] \<rparr>) [])
   \<and> raises_assertion (MQRNNEstimator_init
      ((MQRNN_defaults 12 ''H'' ())\<lparr> rnn_quantiles := Some [Finite (1/2), Finite (11/10)] \<rparr>) [])
   \<and> succeeds (MQCNNEstimator_init
      ((MQCNN_defaults ''H'' 12 () ())\<lparr> quantiles := Some [Finite 0, Finite (1/2), Finite 1] \<rparr>) [])
   \<and> succeeds (MQRNNEstimator_init
      ((MQRNN_defaults 12 ''H'' ())\<lparr> rnn_quantiles := Some [Finite 0, Finite (1/2), Finite 1] \<rparr>) [])"
proof -
  have inside: "(0::int) < 12 \<and>
      (\<forall>d \<in> set [Finite 0, Finite (1/2), Finite 1]. \<exists>x. d = Finite x \<and> 0 \<le> x \<and> x \<le> 1)"
    by (auto intro: exI [of _ "1/2"])
  have outside: "\<exists>d \<in> set [Finite (1/2), Finite (11/10)]. float_lt d (Finite 0) \<or> float_lt (Finite 1) d"
    by simp
  show ?thesis
    using inside outside
      quantile_range
      [where a = "(MQCNN_defaults ''H'' 12 () ())\<lparr> quantiles := Some [Finite (1/2), Finite (11/10)] \<rparr>"
         and r = "(MQRNN_defaults 12 ''H'' ())\<lparr> rnn_quantiles := Some [Finite (1/2), Finite (11/10)] \<rparr>"
         and qs = "[Finite (1/2), Finite (11/10)]" and w = "[]"
         and p = 12 and f = "''H''" and g = "()" and t = "()"]
      quantile_range
      [where a = "MQCNN_defaults ''H'' 12 () ()"
         and r = "MQRNN_defaults 12 ''H'' ()"
         and qs = "[Finite 0, Finite (1/2), Finite 1]" and w = "[]"
         and p = 12 and f = "''H''" and g = "()" and t = "()"]
    by (simp add: MQCNN_defaults_def MQRNN_defaults_def del: float_lt.simps)
qed

subsection \<open>Defaults of the omitted arguments\<close>

text \<open>
  Claim C6. When the body of the constructor of the convolutional estimator returns an
  estimator, each sequence argument that was omitted has its default in the estimator
  and in the object built from it: the nine deciles for the quantiles, [30, 30, 30]
  for the channels, [1, 3, 5] for the dilations, [7, 3, 3] for the kernel sizes and [30]
  for the decoder dimensions. With a positive prediction length and every other
  argument at its default the body does return an estimator, whose decoder has final
  dimension 30, no hidden layer and the prediction length as its length, and whose
  quantile output has nine quantiles.
\<close>

theorem omitted_arguments_defaults:
  "(MQCNNEstimator_init a w = (Inr est, w') \<longrightarrow>
      (quantiles a = None \<longrightarrow>
         self_quantiles est =
           [Finite (1/10), Finite (2/10), Finite (3/10), Finite (4/10), Finite (5/10),
            Finite (6/10), Finite (7/10), Finite (8/10), Finite (9/10)]
         \<and> qo_quantiles (quantile_output est) = self_quantiles est)
      \<and> (channels_seq a = None \<longrightarrow>
           self_channels_seq est = [30, 30, 30] \<and> enc_channels_seq (encoder est) = [30, 30, 30])
      \<and> (dilation_seq a = None \<longrightarrow>
           self_dilation_seq est = [1, 3, 5] \<and> enc_dilation_seq (encoder est) = [1, 3, 5])
      \<and> (kernel_size_seq a = None \<longrightarrow>
           self_kernel_size_seq est = [7, 3, 3] \<and> enc_kernel_size_seq (encoder est) = [7, 3, 3])
      \<and> (decoder_mlp_dim_seq a = None \<longrightarrow>
           self_decoder_mlp_dim_seq est = [30] \<and> final_dim (decoder est) = 30
           \<and> hidden_dimension_sequence (decoder est) = []))
   \<and> (0 < p \<longrightarrow>
        (\<exists>est0 w0. MQCNNEstimator_init (MQCNN_defaults f p g t) w = (Inr est0, w0)
           \<and> final_dim (decoder est0) = 30
           \<and> hidden_dimension_sequence (decoder est0) = []
           \<and> dec_len (decoder est0) = p
           \<and> length (qo_quantiles (quantile_output est0)) = 9))"
proof (intro conjI impI)
  assume r: "MQCNNEstimator_init a w = (Inr est, w')"
  then have b: "MQCNN_build a (or_default (decoder_mlp_dim_seq a) [30])
        (or_default (channels_seq a) [30, 30, 30]) (or_default (dilation_seq a) [1, 3, 5])
        (or_default (kernel_size_seq a) [7, 3, 3]) (or_default (quantiles a) default_quantiles) w
      = (Inr est, w')"
    by (auto simp add: MQCNNEstimator_init_def Let_def split: if_splits)
  then have c: "getitem_last (or_default (decoder_mlp_dim_seq a) [30])
      = Inr (last (or_default (decoder_mlp_dim_seq a) [30]))"
    by (auto simp add: MQCNN_build_def Let_def getitem_last_def split: if_splits)
  {
    assume "quantiles a = None"
    with b show "self_quantiles est =
           [Finite (1/10), Finite (2/10), Finite (3/10), Finite (4/10), Finite (5/10),
            Finite (6/10), Finite (7/10), Finite (8/10), Finite (9/10)]"
      by (auto simp add: MQCNN_build_def Let_def or_default_def default_quantiles_def
          ForkingSeq2SeqEstimator_init_cnn_def split: sum.splits option.splits if_splits)
  }
  {
    from b show "qo_quantiles (quantile_output est) = self_quantiles est"
      by (auto simp add: MQCNN_build_def Let_def
          ForkingSeq2SeqEstimator_init_cnn_def split: sum.splits option.splits if_splits)
  }
  {
    assume "channels_seq a = None"
    with b show "self_channels_seq est = [30, 30, 30]" "enc_channels_seq (encoder est) = [30, 30, 30]"
      by (auto simp add: MQCNN_build_def Let_def or_default_def
          ForkingSeq2SeqEstimator_init_cnn_def split: sum.splits option.splits if_splits)
  }
  {
    assume "dilation_seq a = None"
    with b show "self_dilation_seq est = [1, 3, 5]" "enc_dilation_seq (encoder est) = [1, 3, 5]"
      by (auto simp add: MQCNN_build_def Let_def or_default_def
          ForkingSeq2SeqEstimator_init_cnn_def split: sum.splits option.splits if_splits)
  }
  {
    assume "kernel_size_seq a = None"
    with b show "self_kernel_size_seq est = [7, 3, 3]" "enc_kernel_size_seq (encoder est) = [7, 3, 3]"
      by (auto simp add: MQCNN_build_def Let_def or_default_def
          ForkingSeq2SeqEstimator_init_cnn_def split: sum.splits option.splits if_splits)
  }
  {
    assume "decoder_mlp_dim_seq a = None"
    with b show "self_decoder_mlp_dim_seq est = [30]" "final_dim (decoder est) = 30"
      "hidden_dimension_sequence (decoder est) = []"
      by (auto simp add: MQCNN_build_def Let_def or_default_def getitem_last_def
          slice_but_last_def ForkingSeq2SeqEstimator_init_cnn_def
          split: sum.splits option.splits if_splits)
  }
next
  assume "0 < p"
  then show "\<exists>est0 w0. MQCNNEstimator_init (MQCNN_defaults f p g t) w = (Inr est0, w0)
           \<and> final_dim (decoder est0) = 30
           \<and> hidden_dimension_sequence (decoder est0) = []
           \<and> dec_len (decoder est0) = p
           \<and> length (qo_quantiles (quantile_output est0)) = 9"
    by (simp add: MQCNNEstimator_init_def MQCNN_defaults_def none_or_all_def or_default_def
        MQCNN_build_def getitem_last_def slice_but_last_def Let_def default_quantiles_def
        ForkingSeq2SeqEstimator_init_cnn_def base_validate_defaults truthy_def)
qed

theorem omitted_arguments_defaults_witness:
  "\<exists>est0 w0. MQCNNEstimator_init (MQCNN_defaults ''H'' 12 () ()) [] = (Inr est0, w0)
     \<and> self_quantiles est0 =
           [Finite (1/10), Finite (2/10), Finite (3/10), Finite (4/10), Finite (5/10),
            Finite (6/10), Finite (7/10), Finite (8/10), Finite (9/10)]
     \<and> self_channels_seq est0 = [30, 30, 30] \<and> enc_channels_seq (encoder est0) = [30, 30, 30]
     \<and> self_dilation_seq est0 = [1, 3, 5] \<and> enc_dilation_seq (encoder est0) = [1, 3, 5]
     \<and> self_kernel_size_seq est0 = [7, 3, 3] \<and> enc_kernel_size_seq (encoder est0) = [7, 3, 3]
     \<and> self_decoder_mlp_dim_seq est0 = [30]
     \<and> final_dim (decoder est0) = 30 \<and> hidden_dimension_sequence (decoder est0) = []
     \<and> dec_len (decoder est0) = 12
     \<and> length (qo_quantiles (quantile_output est0)) = 9"
proof -
  let ?a = "MQCNN_defaults ''H'' 12 () () :: (unit, unit) MQCNN_args"
  have p: "(0::int) < 12" by simp
  have "\<exists>est0 w0. MQCNNEstimator_init ?a [] = (Inr est0, w0)
           \<and> final_dim (decoder est0) = 30
           \<and> hidden_dimension_sequence (decoder est0) = []
           \<and> dec_len (decoder est0) = 12
           \<and> length (qo_quantiles (quantile_output est0)) = 9"
    using p omitted_arguments_defaults
      [where p = 12 and f = "''H''" and g = "()" and t = "()" and w = "[]", THEN conjunct2]
    by blast
  then obtain est0 w0 where r: "MQCNNEstimator_init ?a [] = (Inr est0, w0)"
    and d: "final_dim (decoder est0) = 30" "hidden_dimension_sequence (decoder est0) = []"
      "dec_len (decoder est0) = 12" "length (qo_quantiles (quantile_output est0)) = 9"
    by blast
  have n: "quantiles ?a = None" "channels_seq ?a = None" "dilation_seq ?a = None"
    "kernel_size_seq ?a = None" "decoder_mlp_dim_seq ?a = None"
    by (simp_all add: MQCNN_defaults_def)
  from r n omitted_arguments_defaults
      [where a = ?a and w = "[]" and est = est0 and w' = w0, THEN conjunct1]
  have "self_quantiles est0 =
           [Finite (1/10), Finite (2/10), Finite (3/10), Finite (4/10), Finite (5/10),
            Finite (6/10), Finite (7/10), Finite (8/10), Finite (9/10)]
     \<and> self_channels_seq est0 = [30, 30, 30] \<and> enc_channels_seq (encoder est0) = [30, 30, 30]
     \<and> self_dilation_seq est0 = [1, 3, 5] \<and> enc_dilation_seq (encoder est0) = [1, 3, 5]
     \<and> self_kernel_size_seq est0 = [7, 3, 3] \<and> enc_kernel_size_seq (encoder est0) = [7, 3, 3]
     \<and> self_decoder_mlp_dim_seq est0 = [30]"
    by blast
  with r d show ?thesis by blast
qed

subsection \<open>Seeding\<close>

text \<open>
  Seeding happens under \<^verbatim>\<open>if seed:\<close>. When the body returns an estimator for a
  seed other than zero, the seed was given to both generators before the first
  architecture object was built, and without a seed the body seeds nothing.
\<close>

lemma seed_nonzero_propagated:
  "seed a = Some s \<Longrightarrow> s \<noteq> 0 \<Longrightarrow> succeeds (MQCNNEstimator_init a w) \<Longrightarrow>
   \<exists>enc dec qo. snd (MQCNNEstimator_init a w) =
     w @ [Np_random_seed s, Mx_random_seed s, Built (CNN_encoder enc), Built (MLP_decoder dec),
          Built (Quantile_head qo)]"
  by (auto simp add: MQCNNEstimator_init_def MQCNN_build_def Let_def succeeds_def truthy_def
      ForkingSeq2SeqEstimator_init_cnn_def split: if_splits sum.splits option.splits)

lemma seed_none_unchanged:
  "seed a = None \<Longrightarrow> filter is_seed (snd (MQCNNEstimator_init a w)) = filter is_seed w"
  by (auto simp add: MQCNNEstimator_init_def MQCNN_build_def Let_def truthy_def
      split: if_splits sum.splits)

text \<open>
  Claim C7. The claim that every supplied seed reaches both generators fails at the
  seed 0, which the test \<^verbatim>\<open>if seed:\<close> treats as no seed: with seed 0 the body returns
  an estimator and has seeded neither generator, while with seed 7 it has seeded
  both.
\<close>

theorem seed_zero_not_propagated:
  "succeeds (MQCNNEstimator_init ((MQCNN_defaults ''H'' 12 () ())\<lparr> seed := Some 0 \<rparr>) [])
   \<and> filter is_seed (snd (MQCNNEstimator_init ((MQCNN_defaults ''H'' 12 () ())\<lparr> seed := Some 0 \<rparr>) []))
       = []
   \<and> filter is_seed (snd (MQCNNEstimator_init ((MQCNN_defaults ''H'' 12 () ())\<lparr> seed := Some 7 \<rparr>) []))
       = [Np_random_seed 7, Mx_random_seed 7]"
  by (simp add: MQCNNEstimator_init_def MQCNN_defaults_def none_or_all_def or_default_def
      MQCNN_build_def getitem_last_def Let_def truthy_def succeeds_def np_seed_accepted_def
      ForkingSeq2SeqEstimator_init_cnn_def base_validate_defaults)

subsection \<open>Derived fields\<close>

text \<open>
  Claim C8. Whatever statistics the training set has, the class method returns the
  dictionary with the three keys in this order: \<^verbatim>\<open>use_feat_dynamic_real\<close> is whether
  the count of dynamic real features is positive, \<^verbatim>\<open>use_feat_static_cat\<close> is whether
  the list of static categorical features is not empty, and \<^verbatim>\<open>cardinality\<close> lists the
  number of distinct values of each static categorical feature. For no dynamic real
  feature and two static categorical features with 5 and 12 distinct values the
  dictionary holds false, true and [5, 12].
\<close>

theorem derive_auto_fields_result:
  "calc it = Inr st \<longrightarrow>
     (\<exists>info. derive_auto_fields calc it =
        Inr ([(''use_feat_dynamic_real'', Bool (0 < num_feat_dynamic_real st)),
              (''use_feat_static_cat'', Bool (feat_static_cat st \<noteq> [])),
              (''cardinality'', IntList (map (\<lambda>c. int (card (fset c))) (feat_static_cat st)))],
             info))"
  by (simp add: derive_auto_fields_def Let_def fcard.rep_eq)

theorem derive_auto_fields_result_witness:
  "\<exists>info. derive_auto_fields
      (\<lambda>u::unit. Inr \<lparr> num_feat_dynamic_real = 0,
                       feat_static_cat = [{|0, 1, 2, 3, 4|},
                                          {|0, 1, 2, 3, 4, 5, 6, 7, 8, 9, 10, 11|}] \<rparr> :: unit + DatasetStatistics) ()
     = Inr ([(''use_feat_dynamic_real'', Bool False), (''use_feat_static_cat'', Bool True),
             (''cardinality'', IntList [5, 12])], info)"
  using derive_auto_fields_result
    [where calc = "\<lambda>u::unit. Inr \<lparr> num_feat_dynamic_real = 0,
                       feat_static_cat = [{|0, 1, 2, 3, 4|},
                                          {|0, 1, 2, 3, 4, 5, 6, 7, 8, 9, 10, 11|}] \<rparr> :: unit + DatasetStatistics"
       and it = "()"
       and st = "\<lparr> num_feat_dynamic_real = 0,
                       feat_static_cat = [{|0, 1, 2, 3, 4|},
                                          {|0, 1, 2, 3, 4, 5, 6, 7, 8, 9, 10, 11|}] \<rparr>"]
  by simp

subsection \<open>Validation and construction\<close>




subsection \<open>An empty decoder sequence\<close>

text \<open>
  Claim C10. The empty list passes the check that every decoder dimension is positive.
  With \<^verbatim>\<open>decoder_mlp_dim_seq=[]\<close> the body of either constructor never returns an
  estimator and never raises the assertion about the decoder dimensions: unless another
  argument fails an assertion, or the seed of the convolutional estimator is one that
  \<^verbatim>\<open>np.random.seed\<close> refuses, it raises \<^verbatim>\<open>IndexError\<close> at the last element of the
  sequence. With a positive prediction length and the other arguments at their defaults
  the error is \<^verbatim>\<open>IndexError\<close> for both estimators.
\<close>

theorem empty_decoder_sequence:
  "none_or_all (\<lambda>d. 0 < d) (Some ([] :: int list))
   \<and> (decoder_mlp_dim_seq a = Some [] \<longrightarrow>
        \<not> succeeds (MQCNNEstimator_init a w)
        \<and> fst (MQCNNEstimator_init a w) \<noteq> Inl (AssertionError msg_mlp)
        \<and> (\<not> raises_assertion (MQCNNEstimator_init a w)
              \<longrightarrow> fst (MQCNNEstimator_init a w) =
                    (if truthy (seed a) \<and> \<not> np_seed_accepted (the (seed a))
                     then Inl (ValueError msg_seed) else Inl IndexError)))
   \<and> (rnn_decoder_mlp_dim_seq r = Some [] \<longrightarrow>
        \<not> succeeds (MQRNNEstimator_init r w)
        \<and> fst (MQRNNEstimator_init r w) \<noteq> Inl (AssertionError msg_mlp)
        \<and> (\<not> raises_assertion (MQRNNEstimator_init r w)
              \<longrightarrow> fst (MQRNNEstimator_init r w) = Inl IndexError))
   \<and> (0 < p \<longrightarrow>
        fst (MQCNNEstimator_init ((MQCNN_defaults f p g t)\<lparr> decoder_mlp_dim_seq := Some [] \<rparr>) w)
          = Inl IndexError
        \<and> fst (MQRNNEstimator_init ((MQRNN_defaults p f t)\<lparr> rnn_decoder_mlp_dim_seq := Some [] \<rparr>) w)
          = Inl IndexError)"
proof (intro conjI impI)
  show "none_or_all (\<lambda>d. 0 < d) (Some ([] :: int list))"
    by (simp add: none_or_all_def)
next
  assume e: "decoder_mlp_dim_seq a = Some []"
  then show "\<not> succeeds (MQCNNEstimator_init a w)"
    by (simp add: MQCNNEstimator_init_def MQCNN_build_def getitem_last_def succeeds_def
        or_default_def Let_def)
  from e show "fst (MQCNNEstimator_init a w) \<noteq> Inl (AssertionError msg_mlp)"
    by (simp add: MQCNNEstimator_init_def MQCNN_build_def getitem_last_def none_or_all_def
        or_default_def Let_def msg_prediction_length_def msg_mlp_def msg_channels_def
        msg_dilation_def msg_kernel_def msg_quantiles_def msg_mismatch_def)
  assume "\<not> raises_assertion (MQCNNEstimator_init a w)"
  with e show "fst (MQCNNEstimator_init a w) =
                    (if truthy (seed a) \<and> \<not> np_seed_accepted (the (seed a))
                     then Inl (ValueError msg_seed) else Inl IndexError)"
    by (simp add: MQCNNEstimator_init_def MQCNN_build_def getitem_last_def raises_assertion_def
        or_default_def Let_def split: if_splits)
next
  assume e: "rnn_decoder_mlp_dim_seq r = Some []"
  then show "\<not> succeeds (MQRNNEstimator_init r w)"
    by (simp add: MQRNNEstimator_init_def getitem_last_def succeeds_def or_default_def Let_def)
  from e show "fst (MQRNNEstimator_init r w) \<noteq> Inl (AssertionError msg_mlp)"
    by (simp add: MQRNNEstimator_init_def getitem_last_def none_or_all_def
        or_default_def Let_def msg_prediction_length_def msg_mlp_def msg_quantiles_def)
  assume "\<not> raises_assertion (MQRNNEstimator_init r w)"
  with e show "fst (MQRNNEstimator_init r w) = Inl IndexError"
    by (simp add: MQRNNEstimator_init_def getitem_last_def raises_assertion_def
        or_default_def Let_def split: if_splits)
next
  assume "0 < p"
  then show "fst (MQCNNEstimator_init ((MQCNN_defaults f p g t)\<lparr> decoder_mlp_dim_seq := Some [] \<rparr>) w)
          = Inl IndexError"
    by (simp add: MQCNNEstimator_init_def MQCNN_defaults_def MQCNN_build_def getitem_last_def
        none_or_all_def or_default_def Let_def truthy_def)
next
  assume "0 < p"
  then show "fst (MQRNNEstimator_init ((MQRNN_defaults p f t)\<lparr> rnn_decoder_mlp_dim_seq := Some [] \<rparr>) w)
          = Inl IndexError"
    by (simp add: MQRNNEstimator_init_def MQRNN_defaults_def getitem_last_def
        none_or_all_def or_default_def Let_def)
qed

theorem empty_decoder_sequence_witness:
  "fst (MQCNNEstimator_init
          ((MQCNN_defaults ''H'' 12 () ())\<lparr> decoder_mlp_dim_seq := Some [] \<rparr>) []) = Inl IndexError
   \<and> fst (MQRNNEstimator_init
          ((MQRNN_defaults 12 ''H'' ())\<lparr> rnn_decoder_mlp_dim_seq := Some [] \<rparr>) []) = Inl IndexError
   \<and> \<not> succeeds (MQCNNEstimator_init
          ((MQCNN_defaults ''H'' 12 () ())\<lparr> decoder_mlp_dim_seq := Some [] \<rparr>) [])
   \<and> \<not> succeeds (MQRNNEstimator_init
          ((MQRNN_defaults 12 ''H'' ())\<lparr> rnn_decoder_mlp_dim_seq := Some [] \<rparr>) [])"
proof -
  let ?a = "(MQCNN_defaults ''H'' 12 () ())\<lparr> decoder_mlp_dim_seq := Some [] \<rparr>
              :: (unit, unit) MQCNN_args"
  let ?r = "(MQRNN_defaults 12 ''H'' ())\<lparr> rnn_decoder_mlp_dim_seq := Some [] \<rparr>
              :: unit MQRNN_args"
  have e: "decoder_mlp_dim_seq ?a = Some []" "rnn_decoder_mlp_dim_seq ?r = Some []"
    by (simp_all add: MQCNN_defaults_def MQRNN_defaults_def)
  have p: "(0::int) < 12" by simp
  show ?thesis
    using e p empty_decoder_sequence
      [where a = ?a and r = ?r and w = "[]" and p = 12 and f = "''H''" and g = "()" and t = "()"]
    by blast
qed

end
